theory Spec2Isabelle
  imports Main "HOL-Library.Word"
begin

unbundle bit_operations_syntax

section \<open>The command framer: \<open>checkCode\<close> and \<open>getBytes\<close>\<close>

text \<open>
  Payloads and frames are JavaScript arrays of integer-valued numbers, modelled as
  \<open>int list\<close>. Reading an array past its end gives \<open>undefined\<close>, modelled as \<open>None\<close>.
\<close>

definition elem :: "int list \<Rightarrow> int \<Rightarrow> int option" where
  "elem bytes j = (if 0 \<le> j \<and> j < int (length bytes) then Some (bytes ! nat j) else None)"

text \<open>
  The operator \<open>^\<close> converts both operands to signed 32-bit integers (\<open>undefined\<close>
  becomes 0) and XORs them.
\<close>

definition toInt32 :: "int option \<Rightarrow> int" where
  "toInt32 v = (case v of None \<Rightarrow> 0 | Some k \<Rightarrow> signed_take_bit 31 k)"

definition js_xor :: "int option \<Rightarrow> int \<Rightarrow> int" where
  "js_xor x b = toInt32 x XOR toInt32 (Some b)"

text \<open>
  \<^verbatim>\<open>for (let i = start; i < (finish - start); i++) { b = bytes[start + i] ^ b; }\<close>
\<close>

function checkCode_loop :: "int \<Rightarrow> int \<Rightarrow> int \<Rightarrow> int list \<Rightarrow> int \<Rightarrow> int" where
  "checkCode_loop i start finish bytes b =
     (if i < finish - start
      then checkCode_loop (i + 1) start finish bytes (js_xor (elem bytes (start + i)) b)
      else b)"
  by pat_completeness auto
termination
  by (relation "measure (\<lambda>(i, start, finish, bytes, b). nat (finish - start - i))") auto

definition checkCode :: "int \<Rightarrow> int \<Rightarrow> int list \<Rightarrow> int" where
  "checkCode start finish bytes = checkCode_loop start start finish bytes 0"

text \<open>
  \<open>getBytes\<close> copies the payload, stores \<open>input.length - 1\<close> at index 0 (on an empty
  payload this store appends the element), stores the check code at index
  \<open>inputBytes.length - 2\<close> (on a one-element array that index is \<open>-1\<close>, which is not an
  array index, so the elements stay as they are), and wraps the result between the
  header and the terminator.
\<close>

definition getBytes :: "int list \<Rightarrow> int list" where
  "getBytes input =
     (let inputBytes = (if input = [] then [int (length input) - 1]
                        else input[0 := int (length input) - 1]);
          m = length inputBytes;
          code = checkCode 0 (int m - 2) inputBytes;
          inputBytes = (if m < 2 then inputBytes else inputBytes[m - 2 := code])
      in [254, 239, 10, int (length input) + 8 - 4, 171, 170] @ inputBytes @ [13, 10])"


section \<open>The lamp object\<close>

text \<open>
  The fields of \<open>BeurerLight\<close> as the constructor sets them. \<open>peripheral\<close> and
  \<open>lampControl\<close> record whether the handle is non-null. \<open>lightService\<close> records whether
  the accessory has a Lightbulb service (\<open>accessory.getService(Service.Lightbulb)\<close>).
  \<open>connectionTimeoutToken\<close> is the pending timer: the milliseconds left until its
  callback runs, \<open>None\<close> when no timer is pending (clearing a timer that has already
  run does nothing, so only a pending one matters). \<open>whiteBrightness\<close> and
  \<open>colorBrightness\<close> hold a number or, as \<open>None\<close>, the \<open>undefined\<close> that a
  notification stores when its frame ends before offset 10. Logging is left out.
\<close>

record light =
  lightService :: bool
  peripheral :: bool
  lampControl :: bool
  connected :: bool
  connectionTimeout :: nat
  connectionTimeoutToken :: "nat option"
  hue :: int
  saturation :: int
  brightness :: int
  whiteBrightness :: "int option"
  colorBrightness :: "int option"
  whiteOn :: bool
  colorOn :: bool
  whichLampToControl :: int

definition constructor :: "bool \<Rightarrow> light" where
  "constructor svc =
     \<lparr>lightService = svc, peripheral = False, lampControl = False, connected = False,
      connectionTimeout = 5000, connectionTimeoutToken = None,
      hue = 0, saturation = 0, brightness = 50,
      whiteBrightness = Some 50, colorBrightness = Some 50,
      whiteOn = False, colorOn = False, whichLampToControl = 1\<rparr>"

text \<open>What the lamp object does to the outside: the trace of a call.\<close>

datatype event =
    ConnectCall
  | LinkConnect
  | LinkDiscover
  | NotifySubscribe
  | LinkWrite "int list"
  | LinkDisconnect
  | UpdateOn bool
  | UpdateBrightness "int option"
  | UpdateHue int
  | UpdateSaturation int

text \<open>
  The ways a promise of the lamp object is rejected. \<open>TypeError\<close> is the call of
  \<open>write\<close> on a null \<open>lampControl\<close>.
\<close>

datatype error = ConnectError | DiscoveryError | MissingCharacteristics | WriteError | TypeError

text \<open>
  What the Bluetooth stack answers during one \<open>send\<close>: whether \<open>peripheral.connect\<close>
  and the discovery report an error, which of the two characteristics the discovery
  lists, and whether the write reports an error. Every callback is taken to be
  called once.
\<close>

record link =
  connectError :: bool
  discoverError :: bool
  controlFound :: bool
  notifyFound :: bool
  writeError :: bool

type_synonym 'a outcome = "(error + 'a) \<times> light \<times> event list"

definition result_of :: "'a outcome \<Rightarrow> error + 'a" where
  "result_of r = fst r"

definition state_of :: "'a outcome \<Rightarrow> light" where
  "state_of r = fst (snd r)"

definition events_of :: "'a outcome \<Rightarrow> event list" where
  "events_of r = snd (snd r)"

definition whiteStatusCmd :: "int list" where
  "whiteStatusCmd = [254, 239, 10, 9, 171, 170, 4, 48, 1, 53, 85, 13, 10]"

definition colorStatusCmd :: "int list" where
  "colorStatusCmd = [254, 239, 10, 9, 171, 170, 4, 48, 2, 54, 85, 13, 10]"

text \<open>\<open>requestState\<close> writes both status requests; a write error is only logged.\<close>

definition requestState :: "event list" where
  "requestState = [LinkWrite whiteStatusCmd, LinkWrite colorStatusCmd]"

definition connect :: "link \<Rightarrow> light \<Rightarrow> unit outcome" where
  "connect l s =
     (if \<not> peripheral s then (Inr (), s, [ConnectCall])
      else if connectError l then (Inl ConnectError, s, [ConnectCall, LinkConnect])
      else
        let s1 = s\<lparr>connected := True\<rparr> in
        if discoverError l
        then (Inl DiscoveryError, s1, [ConnectCall, LinkConnect, LinkDiscover])
        else
          let s2 = s1\<lparr>lampControl := controlFound l\<rparr> in
          if \<not> lampControl s2 \<or> \<not> notifyFound l
          then (Inl MissingCharacteristics, s2, [ConnectCall, LinkConnect, LinkDiscover])
          else (Inr (), s2,
                [ConnectCall, LinkConnect, LinkDiscover, NotifySubscribe] @ requestState))"

text \<open>\<open>setPeripheral\<close> starts \<open>connect\<close> and drops its promise.\<close>

definition setPeripheral :: "link \<Rightarrow> light \<Rightarrow> light \<times> event list" where
  "setPeripheral l s = snd (connect l (s\<lparr>peripheral := True\<rparr>))"

definition updateHomeKitState :: "light \<Rightarrow> event list" where
  "updateHomeKitState s =
     (if \<not> lightService s then []
      else [UpdateOn (whiteOn s \<or> colorOn s),
            UpdateBrightness (if whiteOn s then whiteBrightness s else colorBrightness s),
            UpdateHue (hue s),
            UpdateSaturation (saturation s)])"

definition resetConnectionTimeout :: "light \<Rightarrow> light" where
  "resetConnectionTimeout s = s\<lparr>connectionTimeoutToken := Some (connectionTimeout s)\<rparr>"

definition disconnect :: "light \<Rightarrow> light \<times> event list" where
  "disconnect s =
     (if peripheral s \<and> connected s then (s\<lparr>connected := False\<rparr>, [LinkDisconnect])
      else (s, []))"

text \<open>
  The runtime's timer: \<open>dt\<close> milliseconds pass with no call; a pending timer whose
  time has come runs its callback, \<open>disconnect\<close>.
\<close>

definition elapse :: "nat \<Rightarrow> light \<Rightarrow> light \<times> event list" where
  "elapse dt s =
     (case connectionTimeoutToken s of
        None \<Rightarrow> (s, [])
      | Some r \<Rightarrow>
          if dt < r then (s\<lparr>connectionTimeoutToken := Some (r - dt)\<rparr>, [])
          else disconnect (s\<lparr>connectionTimeoutToken := None\<rparr>))"

text \<open>
  \<open>handleNotification\<close>. Every byte is read with \<open>elem\<close>, so a byte past the end
  of the frame is \<open>undefined\<close>: the test \<open>data[8] === 2\<close> and the test
  \<open>data[9] === 1\<close> are then false, and \<open>data[10]\<close> is stored as it is. The
  converter \<open>convert.rgb.hsl\<close> of the library color-convert is a parameter: it
  receives the three bytes as they were read, and \<open>None\<close> is an answer that fails
  the test \<open>if (hsl)\<close>. The handler never fails: on every frame it updates the
  fields of one channel, pushes the state and re-arms the timer.
\<close>

definition handleNotification ::
  "(int option \<Rightarrow> int option \<Rightarrow> int option \<Rightarrow> (int \<times> int \<times> int) option) \<Rightarrow> int list
     \<Rightarrow> light \<Rightarrow> light \<times> event list" where
  "handleNotification rgb_hsl data s =
     (let s3 =
        (if elem data 8 = Some 2 then
           let red = elem data 13; green = elem data 14; blue = elem data 15;
               hsl = rgb_hsl red green blue;
               s1 = s\<lparr>colorBrightness := elem data 10\<rparr>;
               s2 = s1\<lparr>colorOn := (elem data 9 = Some 1)\<rparr>
           in (case hsl of
                 Some (h, sa, li) \<Rightarrow> s2\<lparr>hue := h, saturation := sa\<rparr>
               | None \<Rightarrow> s2)
         else
           let s1 = s\<lparr>whiteBrightness := elem data 10\<rparr>
           in s1\<lparr>whiteOn := (elem data 9 = Some 1)\<rparr>)
      in (resetConnectionTimeout s3, updateHomeKitState s3))"

text \<open>\<open>Buffer.from\<close> keeps the low 8 bits of every element.\<close>

definition Buffer_from :: "int list \<Rightarrow> int list" where
  "Buffer_from xs = map (\<lambda>x. x mod 256) xs"

definition send :: "int list \<Rightarrow> link \<Rightarrow> light \<Rightarrow> unit outcome" where
  "send bytes l s =
     (case (if \<not> connected s \<or> \<not> lampControl s then connect l s else (Inr (), s, [])) of
        (Inl e, s1, ev1) \<Rightarrow> (Inl e, s1, ev1)
      | (Inr u, s1, ev1) \<Rightarrow>
          let s2 = resetConnectionTimeout s1;
              buffer = Buffer_from (getBytes bytes)
          in if \<not> lampControl s2 then (Inl TypeError, s2, ev1)
             else if writeError l then (Inl WriteError, s2, ev1 @ [LinkWrite buffer])
             else (Inr (), s2, ev1 @ [LinkWrite buffer]))"

definition isLampOn :: "light \<Rightarrow> bool" where
  "isLampOn s = (whiteOn s \<or> colorOn s)"

definition setLampOn :: "bool \<Rightarrow> link \<Rightarrow> light \<Rightarrow> unit outcome" where
  "setLampOn v l s =
     (if v \<and> colorOn s then (Inr (), s, [])
      else
        let s1 = s\<lparr>whichLampToControl := 1\<rparr>;
            s2 = (if \<not> v \<and> colorOn s1 then s1\<lparr>whichLampToControl := 2\<rparr> else s1);
            s3 = (if v then s2\<lparr>whiteOn := True, colorOn := False\<rparr>
                  else s2\<lparr>whiteOn := False, colorOn := False\<rparr>);
            onOffBit = (if v then 55 else 53)
        in send [0, onOffBit, whichLampToControl s3, 0, 85] l s3)"

definition getBrightness :: "light \<Rightarrow> int option" where
  "getBrightness s = (if colorOn s then colorBrightness s else whiteBrightness s)"

definition setBrightness :: "int \<Rightarrow> link \<Rightarrow> light \<Rightarrow> unit outcome" where
  "setBrightness v l s =
     (let s1 = (if colorOn s then s\<lparr>colorBrightness := Some v, whichLampToControl := 2\<rparr>
                else s\<lparr>whiteBrightness := Some v, whichLampToControl := 1\<rparr>)
      in send [0, 49, whichLampToControl s1, v, 0, 85] l s1)"

text \<open>
  \<open>setRgb\<close>. The converter \<open>convert.hsl.rgb\<close> is a parameter. The first \<open>send\<close>
  talks to the link \<open>l1\<close>, the second to \<open>l2\<close>; a rejected \<open>send\<close> ends the call.
\<close>

definition setRgb ::
  "(int \<Rightarrow> int \<Rightarrow> int \<Rightarrow> int \<times> int \<times> int) \<Rightarrow> link \<Rightarrow> link \<Rightarrow> light \<Rightarrow> unit outcome" where
  "setRgb hsl_rgb l1 l2 s =
     (case (if \<not> colorOn s
            then (case send [4, 55, 2, 0, 85] l1 s of
                    (Inl e, s1, ev1) \<Rightarrow> (Inl e, s1, ev1)
                  | (Inr u, s1, ev1) \<Rightarrow> (Inr (), s1\<lparr>colorOn := True\<rparr>, ev1))
            else (Inr (), s, [])) of
        (Inl e, s1, ev1) \<Rightarrow> (Inl e, s1, ev1)
      | (Inr u, s1, ev1) \<Rightarrow>
          let s2 = s1\<lparr>colorOn := True\<rparr>;
              s3 = s2\<lparr>whiteOn := False\<rparr>;
              (r, g, b) = hsl_rgb (hue s3) (saturation s3) 50
          in (case send [0, 50, r, g, b, 0, 85] l2 s3 of
                (res, s4, ev2) \<Rightarrow> (res, s4, ev1 @ ev2)))"

definition getHue :: "light \<Rightarrow> int" where
  "getHue s = hue s"

definition setHue ::
  "(int \<Rightarrow> int \<Rightarrow> int \<Rightarrow> int \<times> int \<times> int) \<Rightarrow> int \<Rightarrow> link \<Rightarrow> link \<Rightarrow> light
     \<Rightarrow> unit outcome" where
  "setHue hsl_rgb v l1 l2 s = setRgb hsl_rgb l1 l2 (s\<lparr>hue := v\<rparr>)"

definition getSaturation :: "light \<Rightarrow> int" where
  "getSaturation s = saturation s"

definition setSaturation ::
  "(int \<Rightarrow> int \<Rightarrow> int \<Rightarrow> int \<times> int \<times> int) \<Rightarrow> int \<Rightarrow> link \<Rightarrow> link \<Rightarrow> light
     \<Rightarrow> unit outcome" where
  "setSaturation hsl_rgb v l1 l2 s = setRgb hsl_rgb l1 l2 (s\<lparr>saturation := v\<rparr>)"

section \<open>Sequences of setter calls\<close>

datatype call =
    SetLampOn bool link
  | SetBrightness int link
  | SetHue int link link
  | SetSaturation int link link

fun perform :: "(int \<Rightarrow> int \<Rightarrow> int \<Rightarrow> int \<times> int \<times> int) \<Rightarrow> call \<Rightarrow> light \<Rightarrow> light" where
  "perform hsl_rgb (SetLampOn v l) s = state_of (setLampOn v l s)"
| "perform hsl_rgb (SetBrightness v l) s = state_of (setBrightness v l s)"
| "perform hsl_rgb (SetHue v l1 l2) s = state_of (setHue hsl_rgb v l1 l2 s)"
| "perform hsl_rgb (SetSaturation v l1 l2) s = state_of (setSaturation hsl_rgb v l1 l2 s)"

text \<open>The state after each call of a sequence, in order.\<close>

fun states_after ::
  "(int \<Rightarrow> int \<Rightarrow> int \<Rightarrow> int \<times> int \<times> int) \<Rightarrow> call list \<Rightarrow> light \<Rightarrow> light list" where
  "states_after hsl_rgb [] s = []"
| "states_after hsl_rgb (c # cs) s =
     perform hsl_rgb c s # states_after hsl_rgb cs (perform hsl_rgb c s)"


section \<open>The frame as the specification words it\<close>

text \<open>
  The XOR of a window of bytes, and the payload with its first byte replaced by the
  length marker and its second-to-last byte by the value \<open>c\<close> computed from the
  window of all bytes before that slot.
\<close>

definition xor_all :: "int list \<Rightarrow> int" where
  "xor_all xs = foldl (\<lambda>b x. x XOR b) 0 xs"

definition rewritten :: "(int list \<Rightarrow> int) \<Rightarrow> int list \<Rightarrow> int list" where
  "rewritten c payload =
     (let p = payload[0 := int (length payload) - 1]
      in p[length payload - 2 := c (take (length payload - 2) p)])"

text \<open>The two channels are not both on.\<close>

definition exclusive :: "light \<Rightarrow> bool" where
  "exclusive s = (\<not> (whiteOn s \<and> colorOn s))"

section \<open>Concrete lamps, frames and converters\<close>

text \<open>A link on which everything succeeds, and one on which only the write fails.\<close>

definition link_ok :: link where
  "link_ok = \<lparr>connectError = False, discoverError = False, controlFound = True,
               notifyFound = True, writeError = False\<rparr>"

definition link_write_fails :: link where
  "link_write_fails = link_ok\<lparr>writeError := True\<rparr>"

text \<open>A new lamp with its peripheral attached, and one that is connected as well.\<close>

definition attached :: light where
  "attached = (constructor True)\<lparr>peripheral := True\<rparr>"

definition lit :: light where
  "lit = (constructor True)\<lparr>peripheral := True, lampControl := True, connected := True\<rparr>"

text \<open>
  A color frame (off, brightness 80, black), a white frame (on, brightness 30), a
  white frame cut off before its brightness byte, and converters that answer black
  and red.
\<close>

definition colorFrame :: "int list" where
  "colorFrame = [0, 0, 0, 0, 0, 0, 0, 0, 2, 0, 80, 0, 0, 0, 0, 0]"

definition whiteFrame :: "int list" where
  "whiteFrame = [0, 0, 0, 0, 0, 0, 0, 0, 1, 1, 30]"

definition shortFrame :: "int list" where
  "shortFrame = [0, 0, 0, 0, 0, 0, 0, 0, 1, 1]"

definition black_hsl ::
  "int option \<Rightarrow> int option \<Rightarrow> int option \<Rightarrow> (int \<times> int \<times> int) option" where
  "black_hsl r g b = Some (0, 0, 0)"

definition red_rgb :: "int \<Rightarrow> int \<Rightarrow> int \<Rightarrow> int \<times> int \<times> int" where
  "red_rgb h s l = (255, 0, 0)"

text \<open>
  A run of the idle timer: the peripheral is attached and connects; the lamp is
  switched on; 4000 ms pass; the lamp is switched off, but the write fails.
\<close>

definition idle_attached :: light where
  "idle_attached = fst (setPeripheral link_ok (constructor True))"

definition idle_armed :: light where
  "idle_armed = state_of (setLampOn True link_ok idle_attached)"

definition idle_late :: light where
  "idle_late = fst (elapse 4000 idle_armed)"

definition idle_failed :: "unit outcome" where
  "idle_failed = setLampOn False link_write_fails idle_late"



section \<open>Properties of the framer\<close>

lemma signed_take_bit_xor_int:
  "signed_take_bit n (a XOR b) = signed_take_bit n a XOR signed_take_bit n (b::int)"
  by (auto simp add: bit_eq_iff bit_signed_take_bit_iff bit_xor_iff)

lemma js_xor_Some:
  "js_xor (Some x) (signed_take_bit 31 b) = signed_take_bit 31 (x XOR b)"
  by (simp add: js_xor_def toInt32_def signed_take_bit_xor_int)

text \<open>With \<open>start = 0\<close> the loop folds the elements from \<open>i\<close> up to \<open>finish\<close>.\<close>

lemma checkCode_loop_fold:
  "0 \<le> i \<Longrightarrow> finish \<le> int (length bytes) \<Longrightarrow>
   checkCode_loop i 0 finish bytes (signed_take_bit 31 b) =
     signed_take_bit 31
       (foldl (\<lambda>b x. x XOR b) b (take (nat (finish - i)) (drop (nat i) bytes)))"
proof (induction i "0::int" finish bytes "signed_take_bit 31 b" arbitrary: b
       rule: checkCode_loop.induct)
  case (1 i finish bytes)
  show ?case
  proof (cases "i < finish")
    case False
    then show ?thesis by simp
  next
    case True
    with 1 have lt: "nat i < length bytes" by linarith
    have el: "elem bytes (0 + i) = Some (bytes ! nat i)"
      using True 1 by (simp add: elem_def)
    have dr: "drop (nat i) bytes = bytes ! nat i # drop (nat (i + 1)) bytes"
      using lt 1 by (simp add: Cons_nth_drop_Suc nat_add_distrib)
    have tk: "nat (finish - i) = Suc (nat (finish - (i + 1)))"
      using True by linarith
    have "checkCode_loop i 0 finish bytes (signed_take_bit 31 b) =
          checkCode_loop (i + 1) 0 finish bytes (signed_take_bit 31 (bytes ! nat i XOR b))"
      using True el by (simp add: js_xor_Some)
    also have "\<dots> = signed_take_bit 31 (foldl (\<lambda>b x. x XOR b) (bytes ! nat i XOR b)
         (take (nat (finish - (i + 1))) (drop (nat (i + 1)) bytes)))"
      using 1 True el by (simp add: js_xor_Some)
    finally show ?thesis
      by (simp only: dr tk take_Suc_Cons foldl_Cons)
  qed
qed

lemma checkCode_window:
  "finish \<le> int (length bytes) \<Longrightarrow>
   checkCode 0 finish bytes = signed_take_bit 31 (xor_all (take (nat finish) bytes))"
  using checkCode_loop_fold [of 0 finish bytes 0]
  by (simp add: checkCode_def xor_all_def)

lemma getBytes_long:
  assumes len: "3 \<le> length input"
  shows "getBytes input =
     [254, 239, 10, int (length input) + 4, 171, 170]
     @ rewritten (\<lambda>w. signed_take_bit 31 (xor_all w)) input
     @ [13, 10]"
proof -
  from len have ne: "input \<noteq> []" by auto
  have n2: "nat (int (length input) - 2) = length input - 2" by simp
  show ?thesis
    using len ne
    by (simp add: getBytes_def rewritten_def Let_def checkCode_window n2)
qed

lemma foldl_xor_bounds:
  "\<forall>x\<in>set xs. 0 \<le> x \<and> x < 2 ^ n \<Longrightarrow> 0 \<le> b \<Longrightarrow> b < 2 ^ n \<Longrightarrow>
   0 \<le> foldl (\<lambda>b x. x XOR b) b xs \<and> foldl (\<lambda>b x. x XOR b) b xs < (2::int) ^ n"
  by (induction xs arbitrary: b) (auto simp: XOR_upper)

lemma xor_all_int32:
  assumes "\<forall>x\<in>set xs. 0 \<le> x \<and> x < 2 ^ 31"
  shows "signed_take_bit 31 (xor_all xs) = xor_all xs"
proof -
  have "0 \<le> xor_all xs \<and> xor_all xs < 2 ^ 31"
    unfolding xor_all_def using assms by (intro foldl_xor_bounds) simp_all
  then show ?thesis
    by (simp add: signed_take_bit_int_eq_self)
qed

lemma rewritten_plain:
  assumes els: "\<forall>x\<in>set payload. 0 \<le> x \<and> x < 2 ^ 31"
    and len: "length payload \<le> 2 ^ 31"
  shows "rewritten (\<lambda>w. signed_take_bit 31 (xor_all w)) payload = rewritten xor_all payload"
proof -
  let ?p = "payload[0 := int (length payload) - 1]"
  have win: "\<forall>x\<in>set (take (length payload - 2) ?p). 0 \<le> x \<and> x < 2 ^ 31"
  proof
    fix x assume "x \<in> set (take (length payload - 2) ?p)"
    then have "x \<in> set ?p" by (rule in_set_takeD)
    then have "x \<in> insert (int (length payload) - 1) (set payload)"
      using set_update_subset_insert by fastforce
    moreover have "payload \<noteq> [] \<Longrightarrow> 0 \<le> int (length payload) - 1 \<and> int (length payload) - 1 < 2 ^ 31"
      using len by (cases payload) auto
    moreover have "payload = [] \<Longrightarrow> x \<in> set ?p \<Longrightarrow> False" by simp
    ultimately show "0 \<le> x \<and> x < 2 ^ 31"
      using els \<open>x \<in> set ?p\<close> by (cases "payload = []") auto
  qed
  show ?thesis
    by (simp add: rewritten_def Let_def xor_all_int32 [OF win])
qed

text \<open>
  Claim C1. For every payload of length at least 3, \<open>getBytes\<close> returns the header
  \<open>[254, 239, 10, len + 4, 171, 170]\<close>, then the payload with byte 0 replaced by
  \<open>len - 1\<close> and its second-to-last byte replaced by the XOR of the bytes at indices 0
  to \<open>len - 3\<close> (taken after the length was stored), then \<open>[13, 10]\<close>. The operator
  \<open>^\<close> yields the XOR as a signed 32-bit integer; for a payload of non-negative
  numbers below \<open>2 ^ 31\<close>, so for every payload of bytes, that is the plain XOR.
  Encoding \<open>[0, 55, 1, 0, 85]\<close> stores 4 in byte 0, and encoding the bodies of the two
  status requests gives back the two status request frames.
\<close>

theorem getBytes_frame:
  "(3 \<le> length payload \<longrightarrow>
      getBytes payload =
        [254, 239, 10, int (length payload) + 4, 171, 170]
        @ rewritten (\<lambda>w. signed_take_bit 31 (xor_all w)) payload @ [13, 10])
   \<and> (3 \<le> length payload \<and> length payload \<le> 2 ^ 31
        \<and> (\<forall>x\<in>set payload. 0 \<le> x \<and> x < 2 ^ 31) \<longrightarrow>
      getBytes payload =
        [254, 239, 10, int (length payload) + 4, 171, 170]
        @ rewritten xor_all payload @ [13, 10])
   \<and> getBytes [0, 55, 1, 0, 85] ! 6 = 4
   \<and> getBytes [0, 55, 1, 0, 85] = [254, 239, 10, 9, 171, 170, 4, 55, 1, 50, 85, 13, 10]
   \<and> getBytes [4, 48, 1, 53, 85] = [254, 239, 10, 9, 171, 170, 4, 48, 1, 53, 85, 13, 10]
   \<and> getBytes [4, 48, 2, 54, 85] = [254, 239, 10, 9, 171, 170, 4, 48, 2, 54, 85, 13, 10]"
proof -
  have ex: "rewritten (\<lambda>w. signed_take_bit 31 (xor_all w)) [a, b, c, d, e]
              = [4, b, c, signed_take_bit 31 (c XOR (b XOR 4)), e]" for a b c d e :: int
    by (simp add: rewritten_def xor_all_def)
  have e1: "getBytes [0, 55, 1, 0, 85] = [254, 239, 10, 9, 171, 170, 4, 55, 1, 50, 85, 13, 10]"
    by (simp add: getBytes_long ex)
  have e2: "getBytes [4, 48, 1, 53, 85] = [254, 239, 10, 9, 171, 170, 4, 48, 1, 53, 85, 13, 10]"
    by (simp add: getBytes_long ex)
  have e3: "getBytes [4, 48, 2, 54, 85] = [254, 239, 10, 9, 171, 170, 4, 48, 2, 54, 85, 13, 10]"
    by (simp add: getBytes_long ex)
  have e0: "getBytes [0, 55, 1, 0, 85] ! 6 = 4"
    by (simp add: e1)
  show ?thesis
    using e0 e1 e2 e3 by (simp add: getBytes_long rewritten_plain)
qed

theorem getBytes_frame_witness:
  "3 \<le> length [0, 49, 1, 100, 0, 85 :: int]
   \<and> length [0, 49, 1, 100, 0, 85 :: int] \<le> 2 ^ 31
   \<and> list_all (\<lambda>x. 0 \<le> x \<and> x < 2 ^ 31) [0, 49, 1, 100, 0, 85 :: int]
   \<and> getBytes [0, 49, 1, 100, 0, 85]
       = [254, 239, 10, 10, 171, 170] @ rewritten xor_all [0, 49, 1, 100, 0, 85] @ [13, 10]
   \<and> rewritten xor_all [0, 49, 1, 100, 0, 85] = [5, 49, 1, 100, 81, 85]"
proof -
  have r: "rewritten xor_all [0, 49, 1, 100, 0, 85] = [5, 49, 1, 100, 81, 85]"
    by (simp add: rewritten_def xor_all_def)
  show ?thesis
    using getBytes_frame [of "[0, 49, 1, 100, 0, 85]", THEN conjunct2, THEN conjunct1] r
    by simp
qed


section \<open>Properties of the connection\<close>

lemma connect_fields:
  "whiteOn (state_of (connect l s)) = whiteOn s"
  "colorOn (state_of (connect l s)) = colorOn s"
  "whichLampToControl (state_of (connect l s)) = whichLampToControl s"
  "connectionTimeout (state_of (connect l s)) = connectionTimeout s"
  "connectionTimeoutToken (state_of (connect l s)) = connectionTimeoutToken s"
  by (simp_all add: connect_def state_of_def Let_def)

lemma connect_events:
  "hd (events_of (connect l s)) = ConnectCall"
  "count_list (events_of (connect l s)) ConnectCall = 1"
  "events_of (connect l s) \<noteq> []"
  by (simp_all add: connect_def events_of_def Let_def requestState_def)

text \<open>\<open>send\<close>, with the outcome of its \<open>connect\<close> spelled out.\<close>

lemma send_cases:
  "send p l s =
     (if \<not> connected s \<or> \<not> lampControl s
      then (case result_of (connect l s) of
              Inl e \<Rightarrow> (Inl e, state_of (connect l s), events_of (connect l s))
            | Inr u \<Rightarrow>
               (if \<not> lampControl (state_of (connect l s))
                then (Inl TypeError, resetConnectionTimeout (state_of (connect l s)),
                      events_of (connect l s))
                else (if writeError l then Inl WriteError else Inr (),
                      resetConnectionTimeout (state_of (connect l s)),
                      events_of (connect l s) @ [LinkWrite (Buffer_from (getBytes p))])))
      else (if writeError l then Inl WriteError else Inr (),
            resetConnectionTimeout s, [LinkWrite (Buffer_from (getBytes p))]))"
  by (cases "connect l s" rule: prod_cases3; cases "fst (connect l s)")
     (auto simp: send_def Let_def result_of_def state_of_def events_of_def
        resetConnectionTimeout_def split: sum.splits)

lemma send_fields:
  "whiteOn (state_of (send p l s)) = whiteOn s"
  "colorOn (state_of (send p l s)) = colorOn s"
  "whichLampToControl (state_of (send p l s)) = whichLampToControl s"
  "connectionTimeout (state_of (send p l s)) = connectionTimeout s"
  using connect_fields [of l s]
  by (auto simp: send_cases resetConnectionTimeout_def state_of_def split: sum.splits)

lemma send_live_events:
  "connected s \<Longrightarrow> lampControl s \<Longrightarrow>
   events_of (send p l s) = [LinkWrite (Buffer_from (getBytes p))]"
  by (simp add: send_cases events_of_def)


lemma send_token:
  "connectionTimeoutToken (state_of (send p l s)) =
     (if (\<not> connected s \<or> \<not> lampControl s) \<and> isl (result_of (connect l s))
      then connectionTimeoutToken s else Some (connectionTimeout s))"
  using connect_fields(4,5) [of l s]
  by (auto simp: send_cases resetConnectionTimeout_def state_of_def split: sum.splits)

lemma frame_on_white:
  "Buffer_from (getBytes [0, 55, 1, 0, 85])
     = [254, 239, 10, 9, 171, 170, 4, 55, 1, 50, 85, 13, 10]"
  by (simp add: Buffer_from_def getBytes_long rewritten_def xor_all_def)



text \<open>
  Claim C3, as amended. When \<open>connect\<close> is called while no peripheral is attached, it
  completes successfully: it touches neither the link nor the state and rejects with
  no error.
\<close>

theorem connect_without_peripheral:
  "\<not> peripheral s \<Longrightarrow> connect l s = (Inr (), s, [ConnectCall])"
  by (simp add: connect_def)

theorem connect_without_peripheral_witness:
  "\<not> peripheral (constructor True)
   \<and> connect link_ok (constructor True) = (Inr (), constructor True, [ConnectCall])"
proof -
  have h: "\<not> peripheral (constructor True)" by (simp add: constructor_def)
  show ?thesis using h connect_without_peripheral [OF h, of link_ok] by simp
qed

text \<open>
  Claim C3 as stated fails: on a new lamp, which has no peripheral, \<open>connect\<close>
  resolves; it does not fail.
\<close>

theorem connect_without_peripheral_resolves:
  "peripheral (constructor True) = False
   \<and> result_of (connect link_ok (constructor True)) = Inr ()"
  by (simp add: connect_def constructor_def result_of_def)

text \<open>
  Claim C8. A \<open>send\<close> called while the lamp is not connected (or has no control
  characteristic) calls \<open>connect\<close> exactly once, as the first thing it does, so before
  every write; the frame's write, if it comes, is the last event; and when that
  \<open>connect\<close> fails, \<open>send\<close> fails with the same error and writes no frame. A \<open>send\<close>
  called while connected, with the control characteristic present, calls no
  \<open>connect\<close>: it only writes the frame.
\<close>

theorem send_connects_once:
  "(\<not> connected s \<or> \<not> lampControl s \<longrightarrow>
      count_list (events_of (send p l s)) ConnectCall = 1
      \<and> hd (events_of (send p l s)) = ConnectCall
      \<and> (events_of (send p l s) = events_of (connect l s)
           \<or> events_of (send p l s)
               = events_of (connect l s) @ [LinkWrite (Buffer_from (getBytes p))])
      \<and> (\<forall>e. result_of (connect l s) = Inl e \<longrightarrow>
             send p l s = (Inl e, state_of (connect l s), events_of (connect l s))))
   \<and> (connected s \<and> lampControl s \<longrightarrow>
      count_list (events_of (send p l s)) ConnectCall = 0
      \<and> events_of (send p l s) = [LinkWrite (Buffer_from (getBytes p))])"
proof -
  have up: "events_of (send p l s) = events_of (connect l s)
            \<or> events_of (send p l s)
                 = events_of (connect l s) @ [LinkWrite (Buffer_from (getBytes p))]"
    if "\<not> connected s \<or> \<not> lampControl s"
    using that by (simp add: send_cases events_of_def split: sum.splits)
  have cnt: "count_list (events_of (send p l s)) ConnectCall = 1"
    if "\<not> connected s \<or> \<not> lampControl s"
    using up [OF that] connect_events(2) [of l s] by auto
  have hd1: "hd (events_of (send p l s)) = ConnectCall"
    if "\<not> connected s \<or> \<not> lampControl s"
    using up [OF that] connect_events(1,3) [of l s] by auto
  have fails: "send p l s = (Inl e, state_of (connect l s), events_of (connect l s))"
    if "\<not> connected s \<or> \<not> lampControl s" "result_of (connect l s) = Inl e" for e
    using that by (simp add: send_cases)
  have down: "events_of (send p l s) = [LinkWrite (Buffer_from (getBytes p))]"
    if "connected s \<and> lampControl s"
    using that by (simp add: send_live_events)
  show ?thesis
    using up cnt hd1 fails down by (simp add: down)
qed

theorem send_connects_once_witness:
  "\<not> connected attached \<and> \<not> lampControl attached
   \<and> events_of (send [0, 55, 1, 0, 85] link_ok attached)
       = [ConnectCall, LinkConnect, LinkDiscover, NotifySubscribe,
          LinkWrite whiteStatusCmd, LinkWrite colorStatusCmd,
          LinkWrite [254, 239, 10, 9, 171, 170, 4, 55, 1, 50, 85, 13, 10]]
   \<and> count_list (events_of (send [0, 55, 1, 0, 85] link_ok attached)) ConnectCall = 1
   \<and> result_of (connect (link_ok\<lparr>connectError := True\<rparr>) attached) = Inl ConnectError
   \<and> send [0, 55, 1, 0, 85] (link_ok\<lparr>connectError := True\<rparr>) attached
       = (Inl ConnectError, attached, [ConnectCall, LinkConnect])
   \<and> connected lit \<and> lampControl lit
   \<and> events_of (send [0, 55, 1, 0, 85] link_ok lit)
       = [LinkWrite [254, 239, 10, 9, 171, 170, 4, 55, 1, 50, 85, 13, 10]]"
proof -
  have c1: "connect link_ok attached
             = (Inr (), attached\<lparr>connected := True, lampControl := True\<rparr>,
                [ConnectCall, LinkConnect, LinkDiscover, NotifySubscribe,
                 LinkWrite whiteStatusCmd, LinkWrite colorStatusCmd])"
    by (simp add: connect_def attached_def constructor_def link_ok_def Let_def requestState_def)
  have c2: "connect (link_ok\<lparr>connectError := True\<rparr>) attached
             = (Inl ConnectError, attached, [ConnectCall, LinkConnect])"
    by (simp add: connect_def attached_def constructor_def link_ok_def)
  have d: "\<not> connected attached \<or> \<not> lampControl attached"
    by (simp add: attached_def constructor_def)
  have w: "\<not> writeError link_ok"
    by (simp add: link_ok_def)
  have e1: "events_of (send [0, 55, 1, 0, 85] link_ok attached)
       = [ConnectCall, LinkConnect, LinkDiscover, NotifySubscribe,
          LinkWrite whiteStatusCmd, LinkWrite colorStatusCmd,
          LinkWrite [254, 239, 10, 9, 171, 170, 4, 55, 1, 50, 85, 13, 10]]"
    using d w
    by (simp add: send_cases c1 frame_on_white events_of_def state_of_def result_of_def)
  have up: "count_list (events_of (send [0, 55, 1, 0, 85] link_ok attached)) ConnectCall = 1"
    using send_connects_once [of attached "[0, 55, 1, 0, 85]" link_ok] d by blast
  have fl: "send [0, 55, 1, 0, 85] (link_ok\<lparr>connectError := True\<rparr>) attached
       = (Inl ConnectError, attached, [ConnectCall, LinkConnect])"
    using send_connects_once
            [of attached "[0, 55, 1, 0, 85]" "link_ok\<lparr>connectError := True\<rparr>"] d
    by (simp add: c2 result_of_def state_of_def events_of_def)
  have l: "connected lit \<and> lampControl lit" by (simp add: lit_def)
  have dn: "events_of (send [0, 55, 1, 0, 85] link_ok lit)
       = [LinkWrite [254, 239, 10, 9, 171, 170, 4, 55, 1, 50, 85, 13, 10]]"
    using send_connects_once [of lit "[0, 55, 1, 0, 85]" link_ok] l frame_on_white by simp
  have d2: "\<not> connected attached \<and> \<not> lampControl attached"
    by (simp add: attached_def constructor_def)
  show ?thesis
    using d2 e1 up fl l dn by (simp add: c2 result_of_def)
qed


section \<open>Properties of the setters\<close>

lemma setLampOn_flags:
  "colorOn (state_of (setLampOn v l s)) = (v \<and> colorOn s)"
  "whiteOn (state_of (setLampOn v l s)) = (if v \<and> colorOn s then whiteOn s else v)"
proof -
  show "colorOn (state_of (setLampOn v l s)) = (v \<and> colorOn s)"
  proof (cases "v \<and> colorOn s")
    case True
    then show ?thesis by (simp add: setLampOn_def state_of_def)
  next
    case False
    then show ?thesis by (auto simp: setLampOn_def Let_def send_fields)
  qed
  show "whiteOn (state_of (setLampOn v l s)) = (if v \<and> colorOn s then whiteOn s else v)"
  proof (cases "v \<and> colorOn s")
    case True
    then show ?thesis by (simp add: setLampOn_def state_of_def)
  next
    case False
    then show ?thesis by (auto simp: setLampOn_def Let_def send_fields)
  qed
qed

lemma setLampOn_exclusive: "exclusive s \<Longrightarrow> exclusive (state_of (setLampOn v l s))"
  by (auto simp: exclusive_def setLampOn_flags)

lemma setBrightness_exclusive: "exclusive s \<Longrightarrow> exclusive (state_of (setBrightness v l s))"
  by (auto simp: setBrightness_def Let_def exclusive_def send_fields)

text \<open>
  \<open>setRgb\<close> either stops at the rejected first \<open>send\<close>, with both flags as they
  were, or goes on to set \<open>colorOn\<close> and clear \<open>whiteOn\<close> before the second.
\<close>

lemma setRgb_exclusive:
  assumes ex: "exclusive s"
  shows "exclusive (state_of (setRgb f l1 l2 s))"
proof -
  obtain r1 s1 ev1 where s1: "send [4, 55, 2, 0, 85] l1 s = (r1, s1, ev1)"
    by (cases "send [4, 55, 2, 0, 85] l1 s" rule: prod_cases3)
  have f1: "whiteOn s1 = whiteOn s" "colorOn s1 = colorOn s"
    using send_fields(1,2) [where p = "[4, 55, 2, 0, 85]" and l = l1 and s = s]
    by (simp_all add: s1 state_of_def)
  have tail: "exclusive (state_of (case send p l2 (s'\<lparr>colorOn := True, whiteOn := False\<rparr>) of
                  (res, s4, ev2) \<Rightarrow> (res, s4, ev @ ev2)))" for p s' ev
    using send_fields(1,2)
            [where p = p and l = l2 and s = "s'\<lparr>colorOn := True, whiteOn := False\<rparr>"]
    by (cases "send p l2 (s'\<lparr>colorOn := True, whiteOn := False\<rparr>)" rule: prod_cases3)
       (simp add: exclusive_def state_of_def)
  show ?thesis
  proof (cases "colorOn s")
    case True
    then show ?thesis
      using tail [where s' = s and ev = "[]"]
      by (simp add: setRgb_def Let_def split: prod.splits)
  next
    case False
    show ?thesis
    proof (cases r1)
      case (Inl e)
      then show ?thesis
        using False ex f1 by (simp add: setRgb_def s1 state_of_def exclusive_def)
    next
      case (Inr u)
      then show ?thesis
        using False tail [where s' = s1 and ev = ev1]
        by (simp add: setRgb_def s1 Let_def split: prod.splits)
    qed
  qed
qed

lemma perform_exclusive: "exclusive s \<Longrightarrow> exclusive (perform f c s)"
proof (cases c)
  case (SetLampOn v l)
  assume "exclusive s"
  then show ?thesis using SetLampOn by (simp add: setLampOn_exclusive)
next
  case (SetBrightness v l)
  assume "exclusive s"
  then show ?thesis using SetBrightness by (simp add: setBrightness_exclusive)
next
  case (SetHue v l1 l2)
  assume "exclusive s"
  then have "exclusive (s\<lparr>hue := v\<rparr>)" by (simp add: exclusive_def)
  then show ?thesis using SetHue by (simp add: setHue_def setRgb_exclusive)
next
  case (SetSaturation v l1 l2)
  assume "exclusive s"
  then have "exclusive (s\<lparr>saturation := v\<rparr>)" by (simp add: exclusive_def)
  then show ?thesis using SetSaturation by (simp add: setSaturation_def setRgb_exclusive)
qed

lemma states_after_exclusive:
  "exclusive s \<Longrightarrow> \<forall>t\<in>set (states_after f cs s). exclusive t"
proof (induction cs arbitrary: s)
  case Nil
  show ?case by simp
next
  case (Cons c cs)
  have step: "exclusive (perform f c s)"
    using Cons.prems by (rule perform_exclusive)
  show ?case
    using step Cons.IH [OF step] by simp
qed

text \<open>
  Claim C2. For every finite sequence of calls of \<open>setLampOn\<close>, \<open>setBrightness\<close>,
  \<open>setHue\<close> and \<open>setSaturation\<close> that starts from the state the constructor leaves,
  whatever the link answers and whatever the converter returns, \<open>whiteOn\<close> and
  \<open>colorOn\<close> are not both true after any of the calls. The same holds from every
  state in which they are not both true, so also once a peripheral is attached and
  connected.
\<close>

theorem never_both_on:
  "(\<forall>t\<in>set (states_after f cs (constructor svc)). \<not> (whiteOn t \<and> colorOn t))
   \<and> (\<not> (whiteOn s \<and> colorOn s) \<longrightarrow>
        (\<forall>t\<in>set (states_after f cs s). \<not> (whiteOn t \<and> colorOn t)))"
  using states_after_exclusive [where s = "constructor svc" and f = f and cs = cs]
    states_after_exclusive [where s = s and f = f and cs = cs]
  by (simp add: exclusive_def constructor_def)

theorem never_both_on_witness:
  "\<not> (whiteOn attached \<and> colorOn attached)
   \<and> list_all (\<lambda>t. \<not> (whiteOn t \<and> colorOn t))
        (states_after red_rgb
          [SetLampOn True link_ok, SetHue 120 link_ok link_ok, SetBrightness 70 link_ok,
           SetLampOn True link_ok, SetLampOn False link_write_fails] attached)
   \<and> map (\<lambda>t. (whiteOn t, colorOn t))
        (states_after red_rgb
          [SetLampOn True link_ok, SetHue 120 link_ok link_ok, SetBrightness 70 link_ok,
           SetLampOn True link_ok, SetLampOn False link_write_fails] attached)
       = [(True, False), (False, True), (False, True), (False, True), (False, False)]"
proof -
  have h: "\<not> (whiteOn attached \<and> colorOn attached)"
    by (simp add: attached_def constructor_def)
  have a: "list_all (\<lambda>t. \<not> (whiteOn t \<and> colorOn t))
        (states_after red_rgb
          [SetLampOn True link_ok, SetHue 120 link_ok link_ok, SetBrightness 70 link_ok,
           SetLampOn True link_ok, SetLampOn False link_write_fails] attached)"
    using never_both_on [where s = attached and f = red_rgb, THEN conjunct2] h
    unfolding list_all_iff by blast
  have r: "map (\<lambda>t. (whiteOn t, colorOn t))
        (states_after red_rgb
          [SetLampOn True link_ok, SetHue 120 link_ok link_ok, SetBrightness 70 link_ok,
           SetLampOn True link_ok, SetLampOn False link_write_fails] attached)
       = [(True, False), (False, True), (False, True), (False, True), (False, False)]"
    by (simp add: setLampOn_def setHue_def setRgb_def setBrightness_def send_def connect_def
        Let_def state_of_def attached_def constructor_def link_ok_def link_write_fails_def
        resetConnectionTimeout_def red_rgb_def requestState_def)
  show ?thesis using h a r by blast
qed

text \<open>
  Claim C6. \<open>setLampOn(true)\<close> while \<open>colorOn\<close> is true does nothing: the call
  resolves, every field of the lamp is as before, and nothing is sent.
\<close>

theorem setLampOn_on_while_color:
  "colorOn s \<Longrightarrow> setLampOn True l s = (Inr (), s, [])"
  by (simp add: setLampOn_def)

theorem setLampOn_on_while_color_witness:
  "colorOn (lit\<lparr>colorOn := True\<rparr>)
   \<and> setLampOn True link_ok (lit\<lparr>colorOn := True\<rparr>) = (Inr (), lit\<lparr>colorOn := True\<rparr>, [])"
proof -
  have h: "colorOn (lit\<lparr>colorOn := True\<rparr>)" by simp
  show ?thesis using h setLampOn_on_while_color [OF h, of link_ok] by simp
qed






section \<open>Properties of the notifications\<close>

text \<open>
  Claim C9. For a frame of at least 16 bytes whose byte 8 is 2,
  \<open>handleNotification\<close> sets \<open>colorBrightness\<close> to byte 10, \<open>colorOn\<close> to whether byte
  9 is 1, and \<open>hue\<close> and \<open>saturation\<close> to what the converter makes of bytes 13 to 15
  (when it answers), and re-arms the idle timer; \<open>whiteOn\<close>, \<open>whiteBrightness\<close> and
  every other field stay. For a frame of at least 11 bytes whose byte 8 is not 2, it
  sets \<open>whiteBrightness\<close> to byte 10 and \<open>whiteOn\<close> to whether byte 9 is 1, and
  re-arms the idle timer; \<open>colorOn\<close>, \<open>colorBrightness\<close>, \<open>hue\<close>, \<open>saturation\<close> and
  every other field stay.
\<close>

theorem handleNotification_routing:
  "(16 \<le> length data \<and> data ! 8 = 2 \<longrightarrow>
      fst (handleNotification f data s) =
        (case f (Some (data ! 13)) (Some (data ! 14)) (Some (data ! 15)) of
           Some (h, sa, li) \<Rightarrow>
             s\<lparr>colorBrightness := Some (data ! 10), colorOn := (data ! 9 = 1),
                hue := h, saturation := sa,
                connectionTimeoutToken := Some (connectionTimeout s)\<rparr>
         | None \<Rightarrow>
             s\<lparr>colorBrightness := Some (data ! 10), colorOn := (data ! 9 = 1),
                connectionTimeoutToken := Some (connectionTimeout s)\<rparr>)
      \<and> whiteOn (fst (handleNotification f data s)) = whiteOn s
      \<and> whiteBrightness (fst (handleNotification f data s)) = whiteBrightness s)
   \<and> (11 \<le> length data \<and> data ! 8 \<noteq> 2 \<longrightarrow>
      fst (handleNotification f data s) =
        s\<lparr>whiteBrightness := Some (data ! 10), whiteOn := (data ! 9 = 1),
           connectionTimeoutToken := Some (connectionTimeout s)\<rparr>
      \<and> colorOn (fst (handleNotification f data s)) = colorOn s
      \<and> colorBrightness (fst (handleNotification f data s)) = colorBrightness s
      \<and> hue (fst (handleNotification f data s)) = hue s
      \<and> saturation (fst (handleNotification f data s)) = saturation s)"
  by (auto simp: handleNotification_def elem_def Let_def resetConnectionTimeout_def
      split: option.splits)

theorem handleNotification_routing_witness:
  "16 \<le> length colorFrame \<and> colorFrame ! 8 = 2
   \<and> fst (handleNotification black_hsl colorFrame (constructor True))
       = (constructor True)\<lparr>colorBrightness := Some 80, connectionTimeoutToken := Some 5000\<rparr>
   \<and> 11 \<le> length whiteFrame \<and> whiteFrame ! 8 \<noteq> 2
   \<and> fst (handleNotification black_hsl whiteFrame (constructor True))
       = (constructor True)\<lparr>whiteBrightness := Some 30, whiteOn := True,
            connectionTimeoutToken := Some 5000\<rparr>"
proof -
  have c: "16 \<le> length colorFrame \<and> colorFrame ! 8 = 2"
    by (simp add: colorFrame_def)
  have w: "11 \<le> length whiteFrame \<and> whiteFrame ! 8 \<noteq> 2"
    by (simp add: whiteFrame_def)
  have cv: "colorFrame ! 10 = 80" "colorFrame ! 9 = 0" "black_hsl x y z = Some (0, 0, 0)"
    for x y z
    by (simp_all add: colorFrame_def black_hsl_def)
  have wv: "whiteFrame ! 10 = 30" "whiteFrame ! 9 = 1"
    by (simp_all add: whiteFrame_def)
  have 1: "fst (handleNotification black_hsl colorFrame (constructor True))
       = (constructor True)\<lparr>colorBrightness := Some 80, connectionTimeoutToken := Some 5000\<rparr>"
    using handleNotification_routing
            [of colorFrame black_hsl "constructor True", THEN conjunct1] c
    by (simp add: cv) (simp add: constructor_def)
  have 2: "fst (handleNotification black_hsl whiteFrame (constructor True))
       = (constructor True)\<lparr>whiteBrightness := Some 30, whiteOn := True,
            connectionTimeoutToken := Some 5000\<rparr>"
    using handleNotification_routing
            [of whiteFrame black_hsl "constructor True", THEN conjunct2] w
    by (simp add: wv) (simp add: constructor_def)
  show ?thesis using c w 1 2 by simp
qed

text \<open>
  Claim C4, at the input where the code departs from it. A color frame that reports
  the color channel off with brightness 80 reaches a new lamp: neither channel is on,
  the white brightness is 50 and the color brightness 80. \<open>getBrightness\<close> then
  returns the white channel's 50, but \<open>updateHomeKitState\<close> has pushed the color
  channel's 80.
\<close>

theorem brightness_views_disagree:
  "\<not> whiteOn (fst (handleNotification black_hsl colorFrame (constructor True)))
   \<and> \<not> colorOn (fst (handleNotification black_hsl colorFrame (constructor True)))
   \<and> whiteBrightness (fst (handleNotification black_hsl colorFrame (constructor True)))
       = Some 50
   \<and> colorBrightness (fst (handleNotification black_hsl colorFrame (constructor True)))
       = Some 80
   \<and> getBrightness (fst (handleNotification black_hsl colorFrame (constructor True)))
       = Some 50
   \<and> snd (handleNotification black_hsl colorFrame (constructor True))
       = [UpdateOn False, UpdateBrightness (Some 80), UpdateHue 0, UpdateSaturation 0]
   \<and> updateHomeKitState (fst (handleNotification black_hsl colorFrame (constructor True)))
       = [UpdateOn False, UpdateBrightness (Some 80), UpdateHue 0, UpdateSaturation 0]"
  by (simp add: handleNotification_def colorFrame_def black_hsl_def elem_def Let_def
      constructor_def resetConnectionTimeout_def updateHomeKitState_def getBrightness_def)


section \<open>Properties of the idle timer\<close>

text \<open>
  Claim C5, as amended. The timeout is 5000 ms from the constructor on, and
  \<open>connect\<close>, \<open>send\<close> and \<open>handleNotification\<close> keep it. The timer is re-armed, to the
  full timeout, by every \<open>send\<close> whose \<open>connect\<close> step did not fail, before the write
  and whether or not the write then succeeds, and by every inbound notification,
  whatever its frame; \<open>connect\<close> alone and a \<open>send\<close> whose \<open>connect\<close> fails leave it
  as it was. While no timer is armed, time passing changes nothing. An armed timer
  counts down; when it runs out on a lamp with a peripheral that is connected, the
  link is closed and \<open>connected\<close> becomes false. After a re-arming, less than the
  timeout passing closes nothing.
\<close>

theorem idle_deadline:
  "connectionTimeout (constructor svc) = 5000
   \<and> connectionTimeout (state_of (send p l s)) = connectionTimeout s
   \<and> connectionTimeout (state_of (connect l s)) = connectionTimeout s
   \<and> connectionTimeout (fst (handleNotification f data s)) = connectionTimeout s
   \<and> connectionTimeoutToken (state_of (connect l s)) = connectionTimeoutToken s
   \<and> connectionTimeoutToken (state_of (send p l s)) =
        (if (\<not> connected s \<or> \<not> lampControl s) \<and> isl (result_of (connect l s))
         then connectionTimeoutToken s else Some (connectionTimeout s))
   \<and> connectionTimeoutToken (fst (handleNotification f data s))
        = Some (connectionTimeout s)
   \<and> (connectionTimeoutToken s = None \<longrightarrow> elapse dt s = (s, []))
   \<and> (\<forall>r. connectionTimeoutToken s = Some r \<and> dt < r \<longrightarrow>
         elapse dt s = (s\<lparr>connectionTimeoutToken := Some (r - dt)\<rparr>, []))
   \<and> (\<forall>r. connectionTimeoutToken s = Some r \<and> r \<le> dt \<and> peripheral s \<and> connected s \<longrightarrow>
         elapse dt s = (s\<lparr>connectionTimeoutToken := None, connected := False\<rparr>,
                        [LinkDisconnect]))
   \<and> (dt < connectionTimeout s \<longrightarrow>
         connected (fst (elapse dt (resetConnectionTimeout s))) = connected s
         \<and> snd (elapse dt (resetConnectionTimeout s)) = [])"
proof -
  have n: "connectionTimeoutToken (fst (handleNotification f data s))
             = Some (connectionTimeout s)
           \<and> connectionTimeout (fst (handleNotification f data s)) = connectionTimeout s"
    by (auto simp: handleNotification_def Let_def resetConnectionTimeout_def
        split: option.splits)
  have e: "(connectionTimeoutToken s = None \<longrightarrow> elapse dt s = (s, []))
   \<and> (\<forall>r. connectionTimeoutToken s = Some r \<and> dt < r \<longrightarrow>
         elapse dt s = (s\<lparr>connectionTimeoutToken := Some (r - dt)\<rparr>, []))
   \<and> (\<forall>r. connectionTimeoutToken s = Some r \<and> r \<le> dt \<and> peripheral s \<and> connected s \<longrightarrow>
         elapse dt s = (s\<lparr>connectionTimeoutToken := None, connected := False\<rparr>,
                        [LinkDisconnect]))
   \<and> (dt < connectionTimeout s \<longrightarrow>
         connected (fst (elapse dt (resetConnectionTimeout s))) = connected s
         \<and> snd (elapse dt (resetConnectionTimeout s)) = [])"
    by (auto simp: elapse_def disconnect_def resetConnectionTimeout_def)
  have c: "connectionTimeout (constructor svc) = 5000"
    by (simp add: constructor_def)
  show ?thesis
    using n e c send_token [of p l s] by (simp add: send_fields connect_fields)
qed

theorem idle_deadline_witness:
  "connectionTimeoutToken (lit\<lparr>connectionTimeoutToken := Some 1000\<rparr>) = Some 1000
   \<and> peripheral (lit\<lparr>connectionTimeoutToken := Some 1000\<rparr>)
   \<and> connected (lit\<lparr>connectionTimeoutToken := Some 1000\<rparr>)
   \<and> elapse 999 (lit\<lparr>connectionTimeoutToken := Some 1000\<rparr>)
       = (lit\<lparr>connectionTimeoutToken := Some 1\<rparr>, [])
   \<and> elapse 1000 (lit\<lparr>connectionTimeoutToken := Some 1000\<rparr>)
       = (lit\<lparr>connectionTimeoutToken := None, connected := False\<rparr>, [LinkDisconnect])
   \<and> connectionTimeoutToken lit = None
   \<and> elapse 1000000 lit = (lit, [])
   \<and> connectionTimeoutToken
        (state_of (send [0, 55, 1, 0, 85] link_write_fails
                     (lit\<lparr>connectionTimeoutToken := Some 1000\<rparr>))) = Some 5000
   \<and> connectionTimeoutToken (fst (handleNotification black_hsl whiteFrame lit)) = Some 5000
   \<and> connectionTimeoutToken (fst (handleNotification black_hsl shortFrame lit)) = Some 5000
   \<and> connected (fst (elapse 4999 (resetConnectionTimeout lit)))"
proof -
  let ?s = "lit\<lparr>connectionTimeoutToken := Some 1000\<rparr>"
  have h: "connectionTimeoutToken ?s = Some 1000" "peripheral ?s" "connected ?s"
    "lampControl ?s" "connectionTimeout ?s = 5000"
    by (simp_all add: lit_def constructor_def)
  have hl: "connectionTimeoutToken lit = None" "connected lit" "connectionTimeout lit = 5000"
    by (simp_all add: lit_def constructor_def)
  have a: "elapse 999 ?s = (lit\<lparr>connectionTimeoutToken := Some 1\<rparr>, [])"
    using idle_deadline [where s = ?s and dt = 999] h by simp
  have b: "elapse 1000 ?s
             = (lit\<lparr>connectionTimeoutToken := None, connected := False\<rparr>, [LinkDisconnect])"
    using idle_deadline [where s = ?s and dt = 1000] h by simp
  have c: "elapse 1000000 lit = (lit, [])"
    using idle_deadline [where s = lit and dt = 1000000] hl by simp
  have d: "connectionTimeoutToken (state_of (send [0, 55, 1, 0, 85] link_write_fails ?s))
             = Some 5000"
    using idle_deadline [where s = ?s and p = "[0, 55, 1, 0, 85]" and l = link_write_fails] h
    by simp
  have e: "connectionTimeoutToken (fst (handleNotification black_hsl whiteFrame lit))
             = Some 5000"
    using idle_deadline [where s = lit and f = black_hsl and data = whiteFrame] hl by simp
  have e': "connectionTimeoutToken (fst (handleNotification black_hsl shortFrame lit))
             = Some 5000"
    using idle_deadline [where s = lit and f = black_hsl and data = shortFrame] hl by simp
  have g: "connected (fst (elapse 4999 (resetConnectionTimeout lit)))"
    using idle_deadline [where s = lit and dt = 4999] hl by simp
  show ?thesis
    using h hl a b c d e e' g by simp
qed

text \<open>
  Claim C5 as stated fails twice. After the peripheral is attached and connected,
  no timer is armed, and 5000 ms with no write and no notification leave the lamp
  connected. And a failed write re-arms the timer: the lamp is switched on (timer at
  5000 ms), 4000 ms pass (1000 ms left), switching off fails in the write, and the
  timer is at 5000 ms again, so that 1000 ms later, 5000 ms after the last
  successful write, the lamp is still connected.
\<close>

theorem failed_write_resets_deadline:
  "connected idle_attached
   \<and> connectionTimeoutToken idle_attached = None
   \<and> connected (fst (elapse 5000 idle_attached))
   \<and> result_of (setLampOn True link_ok idle_attached) = Inr ()
   \<and> connectionTimeoutToken idle_armed = Some 5000
   \<and> connectionTimeoutToken idle_late = Some 1000
   \<and> connected idle_late
   \<and> result_of idle_failed = Inl WriteError
   \<and> connectionTimeoutToken (state_of idle_failed) = Some 5000
   \<and> connected (fst (elapse 1000 (state_of idle_failed)))"
  by (simp add: idle_failed_def idle_late_def idle_armed_def idle_attached_def
      Let_def setPeripheral_def connect_def constructor_def link_ok_def
      link_write_fails_def setLampOn_def send_def resetConnectionTimeout_def
      elapse_def disconnect_def state_of_def result_of_def requestState_def)

end
